theory Spec2Isabelle
  imports Main "HOL-Library.Multiset"
begin

section \<open>Strings and JSON values\<close>

text \<open>
  The development embeds \<^verbatim>\<open>backend.py\<close>: the two Flask handlers \<^verbatim>\<open>login\<close> and
  \<^verbatim>\<open>admin\<close>, the helper \<^verbatim>\<open>get_db_connection\<close> and the schema of \<^verbatim>\<open>init_db\<close>.

  A Python \<^verbatim>\<open>str\<close> that comes from a request or from the table is a list of code
  points, so that a NUL character and a lone surrogate (which \<^verbatim>\<open>json.loads\<close> accepts
  as \<^verbatim>\<open>"\ud800"\<close>) are values of the model. The literals of the source (messages,
  keys, categories, the URL) are written as \<^typ>\<open>string\<close>s, one \<^typ>\<open>char\<close> per code
  point (\<^verbatim>\<open>0xE3\<close> is a-tilde, \<^verbatim>\<open>0xE1\<close> a-acute, \<^verbatim>\<open>0xF3\<close> o-acute), and \<open>str_of\<close>
  turns them into code points. Keys of objects and forms are compared only with the
  literal keys of the source and stay \<^typ>\<open>string\<close>s.
\<close>

type_synonym str = "nat list"

definition str_of :: "string \<Rightarrow> str" where
  "str_of s = map of_char s"

text \<open>
  A JSON value as \<^verbatim>\<open>json.loads\<close> delivers it. All the program observes of a number is
  whether it is zero, so numbers are integers here (a fraction behaves as any
  non-zero number). An object lists its members in the order of the text.
\<close>

datatype json =
    JNull
  | JBool bool
  | JNum int
  | JStr str
  | JArr "json list"
  | JObj "(string \<times> json) list"

text \<open>
  Python's truth value: \<^verbatim>\<open>None\<close>, \<^verbatim>\<open>False\<close>, zero and the empty containers are false;
  \<open>falsy v\<close> is \<^verbatim>\<open>not v\<close>.
\<close>

fun truthy :: "json \<Rightarrow> bool" where
  "truthy JNull = False"
| "truthy (JBool b) = b"
| "truthy (JNum n) = (n \<noteq> 0)"
| "truthy (JStr s) = (s \<noteq> [])"
| "truthy (JArr xs) = (xs \<noteq> [])"
| "truthy (JObj kvs) = (kvs \<noteq> [])"

definition falsy :: "json \<Rightarrow> bool" where
  "falsy v = (\<not> truthy v)"

text \<open>\<^verbatim>\<open>d.get(k)\<close> on the dict of an object: of a repeated key the last member counts.\<close>

definition dict_get :: "(string \<times> json) list \<Rightarrow> string \<Rightarrow> json option" where
  "dict_get kvs k = map_of (rev kvs) k"

text \<open>The exceptions that reach a handler from its libraries.\<close>

datatype exn = AttributeError | ProgrammingError | ValueError | UnicodeEncodeError

text \<open>
  What \<^verbatim>\<open>psycopg2\<close> does with a string parameter before the statement is sent: it
  encodes it as UTF-8, which fails on a surrogate, and refuses a NUL character.
\<close>

definition surrogate :: "nat \<Rightarrow> bool" where
  "surrogate c = (0xD800 \<le> c \<and> c \<le> 0xDFFF)"

definition adapt_text :: "str \<Rightarrow> exn option" where
  "adapt_text s =
     (if list_ex surrogate s then Some UnicodeEncodeError
      else if 0 \<in> set s then Some ValueError
      else None)"

text \<open>
  The text of such an exception, as \<^verbatim>\<open>f'{e}'\<close> prints it. Of the encoding error the
  model keeps the fixed end of the text, without the character and its position; the
  other two classes never come from a string parameter and stand with their names.
\<close>

fun exn_text :: "exn \<Rightarrow> str" where
  "exn_text ValueError = str_of ''A string literal cannot contain NUL (0x00) characters.''"
| "exn_text UnicodeEncodeError = str_of ''surrogates not allowed''"
| "exn_text AttributeError = str_of ''AttributeError''"
| "exn_text ProgrammingError = str_of ''ProgrammingError''"

section \<open>The users table and the world around the handlers\<close>

text \<open>
  A row of \<^verbatim>\<open>users\<close> has the columns of \<^verbatim>\<open>CREATE TABLE\<close>. The surrogate key \<^verbatim>\<open>id\<close>
  is assigned by the server's sequence and read by neither handler; rows are modelled
  without it. \<^verbatim>\<open>created_at\<close> is the server's \<^verbatim>\<open>CURRENT_TIMESTAMP\<close>, an integer here.
\<close>

record user_row =
  email :: str
  password_hash :: str
  name :: "str option"
  photo :: "str option"
  created_at :: int

text \<open>
  Everything a handler does besides returning is recorded in the world: the committed
  rows of the table (in insertion order), the flash messages waiting in the session
  (category, message), the number of database connections that are open, and the
  sequence of effects, so that their order can be stated. A statement is recorded
  when the handler calls \<^verbatim>\<open>cur.execute\<close>, whether or not it completes.
\<close>

datatype event =
    Connect
  | Connect_failed
  | Select_by_email json
  | Insert_user str str str
  | Commit
  | Rollback
  | Select_all
  | Close
  | Flash str string

record world =
  users :: "user_row list"
  flashes :: "(string \<times> str) list"
  open_conns :: nat
  trace :: "event list"

text \<open>
  What a request finds outside the program: whether \<^verbatim>\<open>psycopg2.connect\<close> succeeds, the
  server's clock, the salt that \<^verbatim>\<open>generate_password_hash\<close> draws, and whether the INSERT
  (or its commit) raises an exception other than \<^verbatim>\<open>IntegrityError\<close> for a reason outside
  the model (a lost connection, say), with the exception's text.
\<close>

record env =
  db_up :: bool
  now :: int
  salt :: str
  storage_fault :: "str option"

text \<open>
  The configuration read at start-up and the two functions of \<^verbatim>\<open>werkzeug.security\<close>,
  a dependency outside the repository: they are parameters of the model.
  \<^verbatim>\<open>generate_password_hash\<close> takes the salt it would draw as its first argument; its
  password is a form field, always a string that can be encoded.
  \<^verbatim>\<open>check_password_hash\<close> receives whatever value the JSON body holds and may raise.
\<close>

record app =
  ADMIN_PASSWORD :: str
  generate_password_hash :: "str \<Rightarrow> str \<Rightarrow> str"
  check_password_hash :: "str \<Rightarrow> json \<Rightarrow> exn + bool"

section \<open>Database operations\<close>

text \<open>A connection carries the rows its current transaction sees.\<close>

record connection =
  txn_rows :: "user_row list"

definition log_event :: "event \<Rightarrow> world \<Rightarrow> world" where
  "log_event e w = w\<lparr>trace := trace w @ [e]\<rparr>"

text \<open>\<^verbatim>\<open>get_db_connection\<close>: the connection, or \<^verbatim>\<open>None\<close> on \<^verbatim>\<open>OperationalError\<close>.\<close>

definition get_db_connection :: "env \<Rightarrow> world \<Rightarrow> connection option \<times> world" where
  "get_db_connection e w =
     (if db_up e
      then (Some \<lparr>txn_rows = users w\<rparr>,
            log_event Connect (w\<lparr>open_conns := Suc (open_conns w)\<rparr>))
      else (None, log_event Connect_failed w))"

definition close :: "connection \<Rightarrow> world \<Rightarrow> world" where
  "close conn w = log_event Close (w\<lparr>open_conns := open_conns w - 1\<rparr>)"

definition commit :: "connection \<Rightarrow> world \<Rightarrow> world" where
  "commit conn w = log_event Commit (w\<lparr>users := txn_rows conn\<rparr>)"

definition rollback :: "connection \<Rightarrow> world \<Rightarrow> connection \<times> world" where
  "rollback conn w = (conn\<lparr>txn_rows := users w\<rparr>, log_event Rollback w)"

text \<open>
  The parameter of \<^verbatim>\<open>WHERE email = %s\<close>. A string that \<^verbatim>\<open>psycopg2\<close> accepts is compared
  with the column. Every other truthy JSON value makes \<^verbatim>\<open>cur.execute\<close> raise: a refused
  string as above; a number, a boolean or an array because the server has no equality
  between \<^verbatim>\<open>VARCHAR\<close> and its type; an object because \<^verbatim>\<open>psycopg2\<close> cannot adapt a dict
  (the class of the exception makes no difference to the handler).
\<close>

definition email_param :: "json \<Rightarrow> exn + str" where
  "email_param v =
     (case v of
        JStr s \<Rightarrow> (case adapt_text s of Some x \<Rightarrow> Inl x | None \<Rightarrow> Inr s)
      | _ \<Rightarrow> Inl ProgrammingError)"

text \<open>
  \<^verbatim>\<open>SELECT * FROM users WHERE email = %s\<close> followed by \<^verbatim>\<open>fetchone\<close>: the exception, or
  the first row with exactly this email, if any.
\<close>

definition select_by_email ::
  "connection \<Rightarrow> json \<Rightarrow> world \<Rightarrow> (exn + user_row option) \<times> world" where
  "select_by_email conn v w =
     (case email_param v of
        Inl x \<Rightarrow> (Inl x, log_event (Select_by_email v) w)
      | Inr s \<Rightarrow>
          (Inr (find (\<lambda>u. email u = s) (txn_rows conn)), log_event (Select_by_email v) w))"

text \<open>
  Assigning a string to a \<^verbatim>\<open>VARCHAR(n)\<close> column: a value of at most \<open>n\<close> characters is
  stored as it is; a longer one is an error, unless the excess is all spaces, which
  PostgreSQL cuts off.
\<close>

definition fit :: "nat \<Rightarrow> str \<Rightarrow> str option" where
  "fit n s =
     (if length s \<le> n then Some s
      else if list_all (\<lambda>c. c = of_char CHR '' '') (drop n s) then Some (take n s)
      else None)"

datatype db_error = IntegrityError | OtherError str

text \<open>
  \<^verbatim>\<open>INSERT INTO users (name, email, password_hash) VALUES (%s, %s, %s)\<close> under the
  constraints of the schema: \<^verbatim>\<open>name VARCHAR(100)\<close>, \<^verbatim>\<open>email VARCHAR(120) UNIQUE\<close>,
  \<^verbatim>\<open>password_hash VARCHAR(256)\<close>; \<^verbatim>\<open>photo\<close> stays NULL and \<^verbatim>\<open>created_at\<close> takes its
  default. The parameters are adapted in their order, before anything is sent. A
  violated uniqueness constraint is \<^verbatim>\<open>psycopg2.IntegrityError\<close>; every other failure is
  some other exception (\<open>value_too_long\<close> keeps the fixed part of the server's text
  for an over-long value).
\<close>

definition value_too_long :: str where
  "value_too_long = str_of ''value too long for type character varying''"

fun first_refusal :: "str list \<Rightarrow> exn option" where
  "first_refusal [] = None"
| "first_refusal (s # ss) =
     (case adapt_text s of Some x \<Rightarrow> Some x | None \<Rightarrow> first_refusal ss)"

definition execute_insert ::
  "env \<Rightarrow> connection \<Rightarrow> str \<Rightarrow> str \<Rightarrow> str \<Rightarrow> world \<Rightarrow> (db_error + connection) \<times> world" where
  "execute_insert e conn nm em ph w =
     (let w' = log_event (Insert_user nm em ph) w in
      case first_refusal [nm, em, ph] of
        Some x \<Rightarrow> (Inl (OtherError (exn_text x)), w')
      | None \<Rightarrow>
          (case storage_fault e of
             Some msg \<Rightarrow> (Inl (OtherError msg), w')
           | None \<Rightarrow>
               (case (fit 100 nm, fit 120 em, fit 256 ph) of
                  (Some nm', Some em', Some ph') \<Rightarrow>
                    if em' \<in> set (map email (txn_rows conn)) then (Inl IntegrityError, w')
                    else (Inr (conn\<lparr>txn_rows := txn_rows conn @
                            [\<lparr>email = em', password_hash = ph', name = Some nm',
                              photo = None, created_at = now e\<rparr>]\<rparr>), w')
                | _ \<Rightarrow> (Inl (OtherError value_too_long), w'))))"

text \<open>
  \<^verbatim>\<open>ORDER BY created_at DESC\<close>. The server leaves the order of rows with equal
  timestamps open; the model takes a stable sort on the negated timestamp.
\<close>

definition order_by_created_at_desc :: "user_row list \<Rightarrow> user_row list" where
  "order_by_created_at_desc rows = sort_key (\<lambda>u. - created_at u) rows"

text \<open>\<^verbatim>\<open>SELECT name, email FROM users ORDER BY created_at DESC\<close> and \<^verbatim>\<open>fetchall\<close>.\<close>

definition list_users :: "user_row list \<Rightarrow> (str option \<times> str) list" where
  "list_users rows = map (\<lambda>u. (name u, email u)) (order_by_created_at_desc rows)"

definition select_name_email ::
  "connection \<Rightarrow> world \<Rightarrow> (str option \<times> str) list \<times> world" where
  "select_name_email conn w = (list_users (txn_rows conn), log_event Select_all w)"

section \<open>Requests and responses\<close>

text \<open>The page that \<^verbatim>\<open>ADMIN_TEMPLATE\<close> renders: the flash messages and the user list.\<close>

record page =
  page_messages :: "(string \<times> str) list"
  page_users :: "(str option \<times> str) list"

text \<open>
  \<open>Json body status\<close> is \<^verbatim>\<open>jsonify(body), status\<close>; \<open>Text body status\<close> a plain string with
  a status; \<open>Redirect\<close> the 302 of \<^verbatim>\<open>redirect\<close>; \<open>Html\<close> the rendered template (status
  200); \<open>Bad_request\<close> the HTTP 400 that Flask makes of the \<^verbatim>\<open>KeyError\<close> raised by
  \<^verbatim>\<open>request.form[...]\<close> on a missing field; \<open>Internal_server_error\<close> the HTTP 500 that
  Flask makes of any other exception no handler catches.
\<close>

datatype response =
    Json json nat
  | Text string nat
  | Redirect string
  | Html page
  | Bad_request
  | Internal_server_error

fun status :: "response \<Rightarrow> nat" where
  "status (Json body st) = st"
| "status (Text body st) = st"
| "status (Redirect url) = 302"
| "status (Html p) = 200"
| "status Bad_request = 400"
| "status Internal_server_error = 500"

datatype http_method = GET | POST

record request =
  http_method :: http_method
  form :: "string \<rightharpoonup> str"

definition failure :: "string \<Rightarrow> json" where
  "failure msg = JObj [(''success'', JBool False), (''error'', JStr (str_of msg))]"

definition user_profile :: "user_row \<Rightarrow> json" where
  "user_profile u =
     JObj [(''name'', (case name u of None \<Rightarrow> JNull | Some n \<Rightarrow> JStr n)),
           (''email'', JStr (email u)),
           (''photo'', JStr (case photo u of None \<Rightarrow> [] | Some p \<Rightarrow> if p \<noteq> [] then p else []))]"

definition msg_required :: string where
  "msg_required = ''Email e senha s'' @ [CHR 0xE3] @ ''o obrigat'' @ [CHR 0xF3] @ ''rios.''"

definition msg_db_connection :: string where
  "msg_db_connection =
     ''Erro de conex'' @ [CHR 0xE3] @ ''o com a base de dados.''"

definition msg_invalid_credentials :: string where
  "msg_invalid_credentials = ''Credenciais inv'' @ [CHR 0xE1] @ ''lidas.''"

section \<open>The login handler\<close>

text \<open>
  \<^verbatim>\<open>data\<close> is what \<^verbatim>\<open>request.get_json()\<close> returns: \<open>None\<close> or a JSON value. Line 122
  answers 400 when \<^verbatim>\<open>data\<close> is false, or when \<^verbatim>\<open>data.get\<close> of either key is absent or
  false; on a true value that is not an object \<^verbatim>\<open>data.get\<close> raises \<^verbatim>\<open>AttributeError\<close>.
  The lookup of lines 129 to 131 has no handler: when \<^verbatim>\<open>cur.execute\<close> raises, line 132
  is skipped and the connection stays open. Line 134 calls \<^verbatim>\<open>check_password_hash\<close>
  only when a row was found, after the connection is closed.
\<close>

definition login :: "app \<Rightarrow> env \<Rightarrow> json option \<Rightarrow> world \<Rightarrow> response \<times> world" where
  "login a e data w =
     (case data of
        None \<Rightarrow> (Json (failure msg_required) 400, w)
      | Some j \<Rightarrow>
          if falsy j then (Json (failure msg_required) 400, w)
          else
            (case j of
               JObj kvs \<Rightarrow>
                 (case (dict_get kvs ''email'', dict_get kvs ''password'') of
                    (Some em, Some pw) \<Rightarrow>
                      if falsy em \<or> falsy pw
                      then (Json (failure msg_required) 400, w)
                      else
                        (case get_db_connection e w of
                           (None, w1) \<Rightarrow> (Json (failure msg_db_connection) 500, w1)
                         | (Some conn, w1) \<Rightarrow>
                             (case select_by_email conn em w1 of
                                (Inl x, w2) \<Rightarrow> (Internal_server_error, w2)
                              | (Inr user, w2) \<Rightarrow>
                                  (let w3 = close conn w2 in
                                   case user of
                                     Some u \<Rightarrow>
                                       (case check_password_hash a (password_hash u) pw of
                                          Inl x \<Rightarrow> (Internal_server_error, w3)
                                        | Inr True \<Rightarrow>
                                            (Json (JObj [(''success'', JBool True),
                                                         (''user'', user_profile u)]) 200, w3)
                                        | Inr False \<Rightarrow>
                                            (Json (failure msg_invalid_credentials) 401, w3))
                                   | None \<Rightarrow>
                                       (Json (failure msg_invalid_credentials) 401, w3))))
                  | _ \<Rightarrow> (Json (failure msg_required) 400, w))
             | _ \<Rightarrow> (Internal_server_error, w)))"

section \<open>The admin handler\<close>

definition flash :: "str \<Rightarrow> string \<Rightarrow> world \<Rightarrow> world" where
  "flash message category w =
     log_event (Flash message category) (w\<lparr>flashes := flashes w @ [(category, message)]\<rparr>)"

text \<open>
  Rendering reads the pending flash messages with \<^verbatim>\<open>get_flashed_messages\<close>, which
  removes them from the session.
\<close>

definition render_template_string ::
  "(str option \<times> str) list \<Rightarrow> world \<Rightarrow> response \<times> world" where
  "render_template_string us w =
     (Html \<lparr>page_messages = flashes w, page_users = us\<rparr>, w\<lparr>flashes := []\<rparr>)"

text \<open>Lines 181 to 186: list the users, close the connection, render the page.\<close>

definition show_page :: "connection \<Rightarrow> world \<Rightarrow> response \<times> world" where
  "show_page conn w =
     (case select_name_email conn w of
        (us, w1) \<Rightarrow> render_template_string us (close conn w1))"

text \<open>Lines 165 to 178: the insert in its \<^verbatim>\<open>try\<close> block.\<close>

definition create_user ::
  "env \<Rightarrow> connection \<Rightarrow> str \<Rightarrow> str \<Rightarrow> str \<Rightarrow> world \<Rightarrow> connection \<times> world" where
  "create_user e conn nm em ph w =
     (case execute_insert e conn nm em ph w of
        (Inr conn1, w1) \<Rightarrow>
          (conn1, flash (str_of ''Utilizador '' @ em @ str_of '' criado com sucesso!'')
                    ''success'' (commit conn1 w1))
      | (Inl IntegrityError, w1) \<Rightarrow>
          (case rollback conn w1 of
             (conn1, w2) \<Rightarrow>
               (conn1, flash (str_of ''O email '' @ em @
                                str_of ('' j'' @ [CHR 0xE1] @ '' existe.''))
                         ''error'' w2))
      | (Inl (OtherError msg), w1) \<Rightarrow>
          (case rollback conn w1 of
             (conn1, w2) \<Rightarrow>
               (conn1, flash (str_of ''Ocorreu um erro: '' @ msg) ''error'' w2)))"

definition admin :: "app \<Rightarrow> env \<Rightarrow> request \<Rightarrow> world \<Rightarrow> response \<times> world" where
  "admin a e req w =
     (case get_db_connection e w of
        (None, w1) \<Rightarrow> (Text msg_db_connection 500, w1)
      | (Some conn, w1) \<Rightarrow>
          if http_method req = POST then
            if form req ''admin_password'' \<noteq> Some (ADMIN_PASSWORD a)
            then (Redirect ''/admin'',
                  flash (str_of ''Senha de admin incorreta!'') ''error'' w1)
            else
              (case (form req ''name'', form req ''email'', form req ''password'') of
                 (Some nm, Some em, Some pw) \<Rightarrow>
                   (case create_user e conn nm em
                           (generate_password_hash a (salt e) pw) w1 of
                      (conn1, w2) \<Rightarrow> show_page conn1 w2)
               | _ \<Rightarrow> (Bad_request, w1))
          else show_page conn w1)"

section \<open>Observations and worked inputs\<close>

text \<open>The keys of a JSON value, at every depth.\<close>

fun json_keys :: "json \<Rightarrow> string list" where
  "json_keys (JObj kvs) = concat (map (\<lambda>(k, v). k # json_keys v) kvs)"
| "json_keys (JArr xs) = concat (map json_keys xs)"
| "json_keys _ = []"

text \<open>
  The inputs of the worked examples: the default admin password of the source; a
  stand-in for the salted hash of \<^verbatim>\<open>werkzeug\<close> (salt, a dollar sign, the password) whose
  check, like \<^verbatim>\<open>werkzeug\<close>'s, encodes the password first and so raises on a value that
  is not a string or that cannot be encoded; an empty world; a reachable and an
  unreachable database; and the user of the example in the specification.
\<close>

definition example_app :: app where
  "example_app =
     \<lparr>ADMIN_PASSWORD = str_of ''admin123'',
      generate_password_hash = (\<lambda>s p. s @ str_of ''$'' @ p),
      check_password_hash =
        (\<lambda>h v. case v of
                  JStr p \<Rightarrow>
                    if list_ex surrogate p then Inl UnicodeEncodeError
                    else Inr (dropWhile (\<lambda>c. c \<noteq> of_char CHR ''$'') h = str_of ''$'' @ p)
                | _ \<Rightarrow> Inl AttributeError)\<rparr>"

definition empty_world :: world where
  "empty_world = \<lparr>users = [], flashes = [], open_conns = 0, trace = []\<rparr>"

definition up :: env where
  "up = \<lparr>db_up = True, now = 1000, salt = str_of ''s1'', storage_fault = None\<rparr>"

definition down :: env where
  "down = \<lparr>db_up = False, now = 1000, salt = str_of ''s1'', storage_fault = None\<rparr>"

definition ana :: user_row where
  "ana = \<lparr>email = str_of ''ana@x.com'', password_hash = str_of ''s1$secret1'',
          name = Some (str_of ''Ana''), photo = None, created_at = 1000\<rparr>"

definition ana_world :: world where
  "ana_world = empty_world\<lparr>users := [ana]\<rparr>"

definition bia :: user_row where
  "bia = \<lparr>email = str_of ''bia@x.com'', password_hash = str_of ''s2$secret2'',
          name = Some (str_of ''Bia''), photo = Some (str_of ''bia.png''), created_at = 2000\<rparr>"

definition credentials :: "string \<Rightarrow> json \<Rightarrow> json" where
  "credentials em pw = JObj [(''email'', JStr (str_of em)), (''password'', pw)]"

definition ana_form :: "string \<rightharpoonup> str" where
  "ana_form =
     [''action'' \<mapsto> str_of ''create'', ''name'' \<mapsto> str_of ''Ana'',
      ''email'' \<mapsto> str_of ''ana@x.com'', ''password'' \<mapsto> str_of ''secret1'',
      ''admin_password'' \<mapsto> str_of ''admin123'']"

definition ana_request :: request where
  "ana_request = \<lparr>http_method = POST, form = ana_form\<rparr>"

definition wrong_secret_request :: request where
  "wrong_secret_request =
     \<lparr>http_method = POST, form = ana_form(''admin_password'' \<mapsto> str_of ''wrong'')\<rparr>"

definition get_request :: request where
  "get_request = \<lparr>http_method = GET, form = Map.empty\<rparr>"


section \<open>Basic facts about the operations\<close>

lemmas db_defs = get_db_connection_def close_def commit_def rollback_def
  select_by_email_def log_event_def

lemmas example_defs = example_app_def empty_world_def up_def down_def ana_def ana_world_def
  bia_def ana_form_def credentials_def

lemmas request_defs = wrong_secret_request_def ana_request_def get_request_def

lemmas text_defs = adapt_text_def surrogate_def str_of_def

lemmas login_defs = login_def email_param_def dict_get_def

lemma falsy_iff [simp]: "falsy v \<longleftrightarrow> \<not> truthy v"
  by (simp add: falsy_def)

lemma str_of_eq_iff [simp]: "str_of a = str_of b \<longleftrightarrow> a = b"
  by (simp add: str_of_def inj_map_eq_map inj_def)

lemma str_of_Nil_iff [simp]: "str_of a = [] \<longleftrightarrow> a = []"
  by (simp add: str_of_def)

lemma length_str_of [simp]: "length (str_of a) = length a"
  by (simp add: str_of_def)

lemma find_snoc:
  "find P (xs @ [x]) =
     (case find P xs of Some y \<Rightarrow> Some y | None \<Rightarrow> if P x then Some x else None)"
  by (induction xs) auto

lemma fit_short: "length s \<le> n \<Longrightarrow> fit n s = Some s"
  by (simp add: fit_def)

lemma first_refusal_None:
  "first_refusal [nm, em, ph] = None \<longleftrightarrow>
     adapt_text nm = None \<and> adapt_text em = None \<and> adapt_text ph = None"
  by (simp split: option.splits)

lemma email_param_JStr:
  "adapt_text s = None \<Longrightarrow> email_param (JStr s) = Inr s"
  by (simp add: email_param_def)

text \<open>The three outcomes of the INSERT.\<close>

lemma execute_insert_cases:
  "(\<exists>msg. execute_insert e conn nm em ph w =
           (Inl (OtherError msg), log_event (Insert_user nm em ph) w)) \<or>
   execute_insert e conn nm em ph w = (Inl IntegrityError, log_event (Insert_user nm em ph) w) \<or>
   (\<exists>row. execute_insert e conn nm em ph w =
           (Inr (conn\<lparr>txn_rows := txn_rows conn @ [row]\<rparr>),
            log_event (Insert_user nm em ph) w))"
  unfolding execute_insert_def Let_def
  by (cases "first_refusal [nm, em, ph]"; cases "storage_fault e"; cases "fit 100 nm";
      cases "fit 120 em"; cases "fit 256 ph") auto



lemma execute_insert_fresh:
  assumes "storage_fault e = None" "length nm \<le> 100" "length em \<le> 120" "length ph \<le> 256"
      and "adapt_text nm = None" "adapt_text em = None" "adapt_text ph = None"
      and "em \<notin> set (map email (txn_rows conn))"
  shows "execute_insert e conn nm em ph w =
           (Inr (conn\<lparr>txn_rows := txn_rows conn @
                   [\<lparr>email = em, password_hash = ph, name = Some nm, photo = None,
                     created_at = now e\<rparr>]\<rparr>),
            log_event (Insert_user nm em ph) w)"
  using assms by (simp add: execute_insert_def Let_def fit_short)

text \<open>
  After the \<^verbatim>\<open>try\<close> block the connection sees exactly the committed table, whichever
  branch was taken, and the block opens or closes no connection.
\<close>

lemma create_user_view:
  "txn_rows (fst (create_user e conn nm em ph w)) = users (snd (create_user e conn nm em ph w))"
  using execute_insert_cases [of e conn nm em ph w]
  by (auto simp: create_user_def flash_def db_defs)

lemma create_user_open_conns:
  "open_conns (snd (create_user e conn nm em ph w)) = open_conns w"
  using execute_insert_cases [of e conn nm em ph w]
  by (auto simp: create_user_def flash_def db_defs)


lemma show_page_eq:
  "show_page conn w =
     (Html \<lparr>page_messages = flashes w, page_users = list_users (txn_rows conn)\<rparr>,
      w\<lparr>flashes := [], open_conns := open_conns w - 1, trace := trace w @ [Select_all, Close]\<rparr>)"
  by (simp add: show_page_def select_name_email_def render_template_string_def db_defs)

text \<open>The handler, path by path.\<close>

lemma admin_down:
  "\<not> db_up e \<Longrightarrow> admin a e req w = (Text msg_db_connection 500, log_event Connect_failed w)"
  by (simp add: admin_def get_db_connection_def)

lemma admin_get:
  "db_up e \<Longrightarrow> http_method req = GET \<Longrightarrow>
   admin a e req w =
     show_page \<lparr>txn_rows = users w\<rparr> (log_event Connect (w\<lparr>open_conns := Suc (open_conns w)\<rparr>))"
  by (simp add: admin_def get_db_connection_def)

lemma admin_post_wrong_secret:
  "db_up e \<Longrightarrow> http_method req = POST \<Longrightarrow>
   form req ''admin_password'' \<noteq> Some (ADMIN_PASSWORD a) \<Longrightarrow>
   admin a e req w =
     (Redirect ''/admin'',
      flash (str_of ''Senha de admin incorreta!'') ''error''
        (log_event Connect (w\<lparr>open_conns := Suc (open_conns w)\<rparr>)))"
  by (simp add: admin_def get_db_connection_def)

lemma admin_post_missing_field:
  "db_up e \<Longrightarrow> http_method req = POST \<Longrightarrow>
   form req ''admin_password'' = Some (ADMIN_PASSWORD a) \<Longrightarrow>
   form req ''name'' = None \<or> form req ''email'' = None \<or> form req ''password'' = None \<Longrightarrow>
   admin a e req w = (Bad_request, log_event Connect (w\<lparr>open_conns := Suc (open_conns w)\<rparr>))"
  by (auto simp: admin_def get_db_connection_def split: option.splits)

lemma admin_post_create:
  "db_up e \<Longrightarrow> http_method req = POST \<Longrightarrow>
   form req ''admin_password'' = Some (ADMIN_PASSWORD a) \<Longrightarrow>
   form req ''name'' = Some nm \<Longrightarrow> form req ''email'' = Some em \<Longrightarrow>
   form req ''password'' = Some pw \<Longrightarrow>
   admin a e req w =
     (case create_user e \<lparr>txn_rows = users w\<rparr> nm em (generate_password_hash a (salt e) pw)
             (log_event Connect (w\<lparr>open_conns := Suc (open_conns w)\<rparr>)) of
        (conn1, w2) \<Rightarrow> show_page conn1 w2)"
  by (simp add: admin_def get_db_connection_def)

text \<open>Every path of the handler is one of the five above.\<close>

lemma admin_paths:
  obtains (down) "\<not> db_up e"
  | (get) "db_up e" "http_method req = GET"
  | (wrong_secret) "db_up e" "http_method req = POST"
      "form req ''admin_password'' \<noteq> Some (ADMIN_PASSWORD a)"
  | (missing_field) "db_up e" "http_method req = POST"
      "form req ''admin_password'' = Some (ADMIN_PASSWORD a)"
      "form req ''name'' = None \<or> form req ''email'' = None \<or> form req ''password'' = None"
  | (create) nm em pw where "db_up e" "http_method req = POST"
      "form req ''admin_password'' = Some (ADMIN_PASSWORD a)"
      "form req ''name'' = Some nm" "form req ''email'' = Some em"
      "form req ''password'' = Some pw"
proof (cases "db_up e")
  case False
  then show ?thesis by (rule down)
next
  case up: True
  show ?thesis
  proof (cases "http_method req")
    case GET
    with up show ?thesis by (rule get)
  next
    case POST
    show ?thesis
    proof (cases "form req ''admin_password'' = Some (ADMIN_PASSWORD a)")
      case False
      with up POST show ?thesis by (rule wrong_secret)
    next
      case secret: True
      show ?thesis
      proof (cases "form req ''name'' = None \<or> form req ''email'' = None \<or>
                    form req ''password'' = None")
        case True
        with up POST secret show ?thesis by (rule missing_field)
      next
        case False
        then obtain nm em pw where "form req ''name'' = Some nm"
          "form req ''email'' = Some em" "form req ''password'' = Some pw"
          by auto
        with up POST secret show ?thesis by (rule create)
      qed
    qed
  qed
qed

lemma map_insort_key:
  "map g (insort_key (\<lambda>x. k (g x)) x xs) = insort_key k (g x) (map g xs)"
  by (induction xs) auto

lemma map_sort_key:
  "map g (sort_key (\<lambda>x. k (g x)) xs) = sort_key k (map g xs)"
  by (induction xs) (auto simp: map_insort_key)

text \<open>The listing is a function of the name, email and timestamp columns alone.\<close>

lemma list_users_columns:
  "list_users rows =
     map (\<lambda>(n, m, t). (n, m))
       (sort_key (\<lambda>(n, m, t). - t) (map (\<lambda>u. (name u, email u, created_at u)) rows))"
proof -
  have "map (\<lambda>u. (name u, email u, created_at u)) (order_by_created_at_desc rows) =
        sort_key (\<lambda>(n, m, t). - t) (map (\<lambda>u. (name u, email u, created_at u)) rows)"
    unfolding order_by_created_at_desc_def
    using map_sort_key [of "\<lambda>u. (name u, email u, created_at u)" "\<lambda>(n, m, t). - t" rows]
    by simp
  then have "map (\<lambda>(n, m, t). (n, m))
               (map (\<lambda>u. (name u, email u, created_at u)) (order_by_created_at_desc rows)) =
             map (\<lambda>(n, m, t). (n, m))
               (sort_key (\<lambda>(n, m, t). - t)
                  (map (\<lambda>u. (name u, email u, created_at u)) rows))"
    by simp
  then show ?thesis by (simp add: list_users_def comp_def)
qed

lemma list_users_hides_other_columns:
  "map (\<lambda>u. (name u, email u, created_at u)) rows =
     map (\<lambda>u. (name u, email u, created_at u)) rows' \<Longrightarrow> list_users rows = list_users rows'"
  by (simp only: list_users_columns)

lemma order_by_created_at_desc_sorted:
  "sorted_wrt (\<lambda>u v. created_at v \<le> created_at u) (order_by_created_at_desc rows)"
proof -
  have "sorted (map (\<lambda>u. - created_at u) (order_by_created_at_desc rows))"
    by (simp add: order_by_created_at_desc_def)
  then show ?thesis by (simp add: sorted_map)
qed

text \<open>The page shows the listing of the table as the request leaves it.\<close>

lemma admin_page_users:
  assumes "fst (admin a e req w) = Html p"
  shows "page_users p = list_users (users (snd (admin a e req w)))"
proof (cases rule: admin_paths [where e = e and req = req and a = a])
  case down
  with assms show ?thesis by (simp add: admin_down)
next
  case get
  with assms show ?thesis by (auto simp: admin_get show_page_eq log_event_def)
next
  case wrong_secret
  with assms show ?thesis by (simp add: admin_post_wrong_secret)
next
  case missing_field
  with assms show ?thesis by (simp add: admin_post_missing_field)
next
  case (create nm em pw)
  with assms show ?thesis
    using create_user_view [of e "\<lparr>txn_rows = users w\<rparr>" nm em
        "generate_password_hash a (salt e) pw"
        "log_event Connect (w\<lparr>open_conns := Suc (open_conns w)\<rparr>)"]
    by (auto simp: admin_post_create show_page_eq split: prod.splits)
qed

text \<open>
  Where the connection is released: on the paths of \<^verbatim>\<open>admin\<close> that render the page, and
  on every path of \<^verbatim>\<open>login\<close> but the one where the lookup raises, which skips line 132.
\<close>

lemma admin_page_releases_connection:
  assumes "fst (admin a e req w) = Html p"
  shows "open_conns (snd (admin a e req w)) = open_conns w"
proof (cases rule: admin_paths [where e = e and req = req and a = a])
  case down
  with assms show ?thesis by (simp add: admin_down)
next
  case get
  with assms show ?thesis by (auto simp: admin_get show_page_eq log_event_def)
next
  case wrong_secret
  with assms show ?thesis by (simp add: admin_post_wrong_secret)
next
  case missing_field
  with assms show ?thesis by (simp add: admin_post_missing_field)
next
  case (create nm em pw)
  have "open_conns (snd (create_user e \<lparr>txn_rows = users w\<rparr> nm em
            (generate_password_hash a (salt e) pw)
            (log_event Connect (w\<lparr>open_conns := Suc (open_conns w)\<rparr>)))) = Suc (open_conns w)"
    by (simp add: create_user_open_conns log_event_def)
  with create show ?thesis
    by (auto simp: admin_post_create show_page_eq split: prod.splits)
qed

lemma dict_get_Nil [simp]: "dict_get [] k = None"
  by (simp add: dict_get_def)

lemma email_param_Inr: "email_param v = Inr s \<Longrightarrow> v = JStr s \<and> adapt_text s = None"
  by (cases v) (auto simp: email_param_def split: option.splits)

text \<open>What login does once line 122 has let the request through.\<close>

lemma login_validated:
  assumes "dict_get kvs ''email'' = Some em" "dict_get kvs ''password'' = Some pw"
      and "truthy em" "truthy pw" "db_up e"
  shows "login a e (Some (JObj kvs)) w =
     (case email_param em of
        Inl x \<Rightarrow>
          (Internal_server_error,
           w\<lparr>open_conns := Suc (open_conns w),
             trace := trace w @ [Connect, Select_by_email em]\<rparr>)
      | Inr s \<Rightarrow>
          (case find (\<lambda>u. email u = s) (users w) of
             None \<Rightarrow> Json (failure msg_invalid_credentials) 401
           | Some u \<Rightarrow>
               (case check_password_hash a (password_hash u) pw of
                  Inl x \<Rightarrow> Internal_server_error
                | Inr ok \<Rightarrow>
                    if ok then Json (JObj [(''success'', JBool True), (''user'', user_profile u)]) 200
                    else Json (failure msg_invalid_credentials) 401),
           w\<lparr>trace := trace w @ [Connect, Select_by_email em, Close]\<rparr>))"
proof -
  from assms(1) have "kvs \<noteq> []" by auto
  with assms show ?thesis
    by (simp add: login_def db_defs Let_def split: sum.splits option.splits bool.splits)
qed

text \<open>A request answered 200 has passed line 122 and found the database.\<close>

lemma login_200_validated:
  assumes "status (fst (login a e data w)) = 200"
  shows "\<exists>kvs em pw. data = Some (JObj kvs) \<and> dict_get kvs ''email'' = Some em \<and>
           dict_get kvs ''password'' = Some pw \<and> truthy em \<and> truthy pw \<and> db_up e"
  using assms
  by (auto simp: login_def get_db_connection_def
      split: option.splits json.splits if_splits)

lemma login_releases_connection:
  "open_conns (snd (login a e data w)) = open_conns w \<or>
   (\<exists>kvs em x. data = Some (JObj kvs) \<and> dict_get kvs ''email'' = Some em \<and>
                email_param em = Inl x)"
proof (cases "\<exists>kvs em pw. data = Some (JObj kvs) \<and> dict_get kvs ''email'' = Some em \<and>
           dict_get kvs ''password'' = Some pw \<and> truthy em \<and> truthy pw \<and> db_up e")
  case True
  then obtain kvs em pw where d: "data = Some (JObj kvs)"
    and v: "dict_get kvs ''email'' = Some em" "dict_get kvs ''password'' = Some pw"
      "truthy em" "truthy pw" "db_up e"
    by blast
  show ?thesis
    using d v(1) login_validated [OF v, of a w]
    by (cases "email_param em") (auto split: option.splits sum.splits)
next
  case False
  then have "snd (login a e data w) = w \<or> snd (login a e data w) = log_event Connect_failed w"
    by (auto simp: login_def get_db_connection_def split: option.splits json.splits)
  then show ?thesis by (auto simp: log_event_def)
qed

lemma login_refused_email_leaves_connection_open:
  "login example_app up (Some (JObj [(''email'', JStr [0]), (''password'', JStr (str_of ''x''))]))
     empty_world =
     (Internal_server_error,
      \<lparr>users = [], flashes = [], open_conns = 1,
       trace = [Connect, Select_by_email (JStr [0])]\<rparr>)"
  by (simp add: login_defs db_defs example_defs adapt_text_def surrogate_def)

lemma login_users: "users (snd (login a e data w)) = users w"
proof (cases "\<exists>kvs em pw. data = Some (JObj kvs) \<and> dict_get kvs ''email'' = Some em \<and>
           dict_get kvs ''password'' = Some pw \<and> truthy em \<and> truthy pw \<and> db_up e")
  case True
  then obtain kvs em pw where d: "data = Some (JObj kvs)"
    and v: "dict_get kvs ''email'' = Some em" "dict_get kvs ''password'' = Some pw"
      "truthy em" "truthy pw" "db_up e"
    by blast
  show ?thesis
    using d login_validated [OF v, of a w]
    by (cases "email_param em") auto
next
  case False
  then have "snd (login a e data w) = w \<or> snd (login a e data w) = log_event Connect_failed w"
    by (auto simp: login_def get_db_connection_def split: option.splits json.splits)
  then show ?thesis by (auto simp: log_event_def)
qed

text \<open>
  Where the two credential failures do look alike: when both emails are strings the
  driver accepts and the verification of the stored user's hash returns false.
\<close>

lemma login_same_answer_for_text:
  assumes "dict_get k1 ''email'' = Some (JStr e1)" "dict_get k1 ''password'' = Some p1"
      and "dict_get k2 ''email'' = Some (JStr e2)" "dict_get k2 ''password'' = Some p2"
      and "e1 \<noteq> []" "truthy p1" "e2 \<noteq> []" "truthy p2"
      and "adapt_text e1 = None" "adapt_text e2 = None"
      and "find (\<lambda>u. email u = e1) (users w) = Some u"
      and "check_password_hash a (password_hash u) p1 = Inr False"
      and "find (\<lambda>u. email u = e2) (users w) = None"
  shows "fst (login a e (Some (JObj k1)) w) = fst (login a e (Some (JObj k2)) w)"
proof (cases "db_up e")
  case True
  from assms(5-8) have t: "truthy (JStr e1)" "truthy p1" "truthy (JStr e2)" "truthy p2"
    by simp_all
  show ?thesis
    using login_validated [OF assms(1,2) t(1,2) True, of a w]
      login_validated [OF assms(3,4) t(3,4) True, of a w] assms(9-13)
    by (simp add: email_param_def)
next
  case False
  from assms(1,3) have "k1 \<noteq> []" "k2 \<noteq> []" by auto
  with assms False show ?thesis
    by (simp add: login_def get_db_connection_def)
qed

section \<open>Properties of the login handler\<close>



text \<open>
  Claim C6, as stated, fails: a request whose two fields are present but whose email is
  the empty string is answered with status 400, which is none of 500, 401 and 200.
\<close>

theorem login_empty_email_status:
  "dict_get [(''email'', JStr []), (''password'', JStr (str_of ''secret1''))] ''email''
     = Some (JStr []) \<and>
   dict_get [(''email'', JStr []), (''password'', JStr (str_of ''secret1''))] ''password''
     = Some (JStr (str_of ''secret1'')) \<and>
   status (fst (login example_app up
                  (Some (JObj [(''email'', JStr []), (''password'', JStr (str_of ''secret1''))]))
                  ana_world)) = 400"
  by (simp add: login_def dict_get_def)

text \<open>
  Claim C6, amended. For a login request whose email and password fields are present
  and true in Python's sense (not empty, not zero, not null), the status is one of 500,
  401 and 200, and it is determined as follows: 500 when the database cannot be
  reached; 500 when the lookup raises (an email that is not a string, or a string with
  a NUL or a surrogate), which no handler catches; otherwise 401 when no user has this
  email; otherwise what the verification of the stored hash gives: 500 when it raises,
  200 when it succeeds, 401 when it fails. There is no other outcome.
\<close>

theorem login_status:
  "dict_get kvs ''email'' = Some em \<Longrightarrow> dict_get kvs ''password'' = Some pw \<Longrightarrow>
   truthy em \<Longrightarrow> truthy pw \<Longrightarrow>
   status (fst (login a e (Some (JObj kvs)) w)) =
     (if \<not> db_up e then 500
      else case email_param em of
             Inl x \<Rightarrow> 500
           | Inr s \<Rightarrow>
               (case find (\<lambda>u. email u = s) (users w) of
                  None \<Rightarrow> 401
                | Some u \<Rightarrow>
                    (case check_password_hash a (password_hash u) pw of
                       Inl x \<Rightarrow> 500
                     | Inr ok \<Rightarrow> if ok then 200 else 401)))"
proof (cases "db_up e")
  case True
  assume "dict_get kvs ''email'' = Some em" "dict_get kvs ''password'' = Some pw"
    "truthy em" "truthy pw"
  from login_validated [OF this True, of a w] True show ?thesis
    by (simp split: sum.splits option.splits)
next
  case False
  assume "dict_get kvs ''email'' = Some em" "dict_get kvs ''password'' = Some pw"
    "truthy em" "truthy pw"
  moreover from this(1) have "kvs \<noteq> []" by auto
  ultimately show ?thesis
    using False by (simp add: login_def get_db_connection_def)
qed

theorem login_status_witness:
  "dict_get [(''email'', JStr (str_of ''ana@x.com'')), (''password'', JStr (str_of ''wrong''))]
     ''email'' = Some (JStr (str_of ''ana@x.com'')) \<and>
   truthy (JStr (str_of ''ana@x.com'')) \<and> truthy (JStr (str_of ''wrong'')) \<and>
   truthy (JStr [0]) \<and> truthy (JNum 5) \<and>
   status (fst (login example_app up (Some (credentials ''ana@x.com'' (JStr (str_of ''wrong''))))
                  ana_world)) = 401 \<and>
   status (fst (login example_app up (Some (credentials ''ana@x.com'' (JStr (str_of ''secret1''))))
                  ana_world)) = 200 \<and>
   status (fst (login example_app down (Some (credentials ''ana@x.com'' (JStr (str_of ''wrong''))))
                  ana_world)) = 500 \<and>
   status (fst (login example_app up
                  (Some (JObj [(''email'', JStr [0]), (''password'', JStr (str_of ''x''))]))
                  ana_world)) = 500 \<and>
   status (fst (login example_app up (Some (credentials ''ana@x.com'' (JNum 5)))
                  ana_world)) = 500"
proof -
  have p: "email_param (JStr (str_of ''ana@x.com'')) = Inr (str_of ''ana@x.com'')"
    "email_param (JStr [0]) = Inl ValueError"
    by (simp_all add: email_param_def text_defs)
  have f: "find (\<lambda>u. email u = str_of ''ana@x.com'') (users ana_world) = Some ana"
    by (simp add: ana_world_def ana_def empty_world_def)
  have c: "check_password_hash example_app (password_hash ana) (JStr (str_of ''wrong'')) = Inr False"
    "check_password_hash example_app (password_hash ana) (JStr (str_of ''secret1'')) = Inr True"
    "check_password_hash example_app (password_hash ana) (JNum 5) = Inl AttributeError"
    by (simp_all add: example_app_def ana_def text_defs)
  have u: "db_up up" "\<not> db_up down"
    by (simp_all add: up_def down_def)
  note t = login_status [where a = example_app and w = ana_world]
  show ?thesis
    using t [of "[(''email'', JStr (str_of ''ana@x.com'')), (''password'', JStr (str_of ''wrong''))]"
            "JStr (str_of ''ana@x.com'')" "JStr (str_of ''wrong'')" up]
      t [of "[(''email'', JStr (str_of ''ana@x.com'')), (''password'', JStr (str_of ''secret1''))]"
            "JStr (str_of ''ana@x.com'')" "JStr (str_of ''secret1'')" up]
      t [of "[(''email'', JStr (str_of ''ana@x.com'')), (''password'', JStr (str_of ''wrong''))]"
            "JStr (str_of ''ana@x.com'')" "JStr (str_of ''wrong'')" down]
      t [of "[(''email'', JStr [0]), (''password'', JStr (str_of ''x''))]"
            "JStr [0]" "JStr (str_of ''x'')" up]
      t [of "[(''email'', JStr (str_of ''ana@x.com'')), (''password'', JNum 5)]"
            "JStr (str_of ''ana@x.com'')" "JNum 5" up]
    by (simp add: p f c u dict_get_def credentials_def)
qed

text \<open>
  Claim C7. Whenever login answers with status 200, the request named the email of a
  stored user and the response is the JSON object with \<open>success\<close> true and a \<open>user\<close>
  object of exactly the fields name, email and photo of that user, the photo being the
  empty string when none is stored; no key \<open>password_hash\<close> occurs in it at any depth.
\<close>

theorem login_success_body:
  "status (fst (login a e data w)) = 200 \<Longrightarrow>
   \<exists>kvs em u body. data = Some (JObj kvs) \<and> dict_get kvs ''email'' = Some (JStr em) \<and>
     find (\<lambda>u. email u = em) (users w) = Some u \<and>
     fst (login a e data w) = Json body 200 \<and>
     body = JObj [(''success'', JBool True),
                  (''user'',
                   JObj [(''name'', (case name u of None \<Rightarrow> JNull | Some n \<Rightarrow> JStr n)),
                         (''email'', JStr (email u)),
                         (''photo'', JStr (case photo u of None \<Rightarrow> [] | Some p \<Rightarrow> p))])] \<and>
     ''password_hash'' \<notin> set (json_keys body)"
proof -
  assume ok: "status (fst (login a e data w)) = 200"
  then obtain kvs v pw where d: "data = Some (JObj kvs)"
    and v: "dict_get kvs ''email'' = Some v" "dict_get kvs ''password'' = Some pw"
      "truthy v" "truthy pw" "db_up e"
    using login_200_validated by blast
  note l = login_validated [OF v, of a w]
  from ok d l obtain em where em: "email_param v = Inr em"
    by (cases "email_param v") auto
  then have vs: "v = JStr em" by (simp add: email_param_Inr)
  from ok d l em obtain u where u: "find (\<lambda>u. email u = em) (users w) = Some u"
    by (cases "find (\<lambda>u. email u = em) (users w)") (auto simp: failure_def)
  from ok d l em u have c: "check_password_hash a (password_hash u) pw = Inr True"
    by (cases "check_password_hash a (password_hash u) pw") (auto split: if_splits)
  have p: "user_profile u =
     JObj [(''name'', (case name u of None \<Rightarrow> JNull | Some n \<Rightarrow> JStr n)),
           (''email'', JStr (email u)),
           (''photo'', JStr (case photo u of None \<Rightarrow> [] | Some p \<Rightarrow> p))]"
    by (simp add: user_profile_def split: option.splits)
  have r: "fst (login a e data w) =
             Json (JObj [(''success'', JBool True), (''user'', user_profile u)]) 200"
    using d l em u c by simp
  have k: "''password_hash'' \<notin> set (json_keys (JObj [(''success'', JBool True),
             (''user'', user_profile u)]))"
    by (simp add: p split: option.splits)
  from d v(1) vs u r k show ?thesis
    unfolding p by blast
qed

theorem login_success_body_witness:
  "status (fst (login example_app up
                  (Some (credentials ''ana@x.com'' (JStr (str_of ''secret1'')))) ana_world)) = 200 \<and>
   fst (login example_app up
          (Some (credentials ''ana@x.com'' (JStr (str_of ''secret1'')))) ana_world)
     = Json (JObj [(''success'', JBool True),
                   (''user'', JObj [(''name'', JStr (str_of ''Ana'')),
                                    (''email'', JStr (str_of ''ana@x.com'')),
                                    (''photo'', JStr [])])]) 200"
proof -
  let ?r = "fst (login example_app up
                   (Some (credentials ''ana@x.com'' (JStr (str_of ''secret1'')))) ana_world)"
  have r: "?r = Json (JObj [(''success'', JBool True),
                   (''user'', JObj [(''name'', JStr (str_of ''Ana'')),
                                    (''email'', JStr (str_of ''ana@x.com'')),
                                    (''photo'', JStr [])])]) 200"
    by (simp add: login_defs db_defs Let_def example_defs user_profile_def text_defs)
  then have h: "status ?r = 200" by simp
  from login_success_body [OF h] show ?thesis
    using h r by simp
qed

text \<open>
  Claim C3 says that a wrong password for a stored email and an unknown email are
  answered alike, so that the caller cannot tell whether an email exists. The code
  misses a case: line 134 calls \<^verbatim>\<open>check_password_hash\<close> only when the email is stored,
  and on a password that is not a string (here the number 5) that call raises. Over
  the same table the stored email is answered 500 and the unknown email 401.
\<close>

theorem login_number_password_reveals_email:
  "find (\<lambda>u. email u = str_of ''ana@x.com'') (users ana_world) = Some ana \<and>
   find (\<lambda>u. email u = str_of ''bob@x.com'') (users ana_world) = None \<and>
   login example_app up (Some (credentials ''ana@x.com'' (JNum 5))) ana_world =
     (Internal_server_error,
      ana_world\<lparr>trace := [Connect, Select_by_email (JStr (str_of ''ana@x.com'')), Close]\<rparr>) \<and>
   login example_app up (Some (credentials ''bob@x.com'' (JNum 5))) ana_world =
     (Json (failure msg_invalid_credentials) 401,
      ana_world\<lparr>trace := [Connect, Select_by_email (JStr (str_of ''bob@x.com'')), Close]\<rparr>)"
  by (simp add: login_defs db_defs Let_def example_defs text_defs)

section \<open>Properties of the admin handler\<close>

text \<open>
  Claim C2. A POST to the admin page whose \<open>admin_password\<close> field is absent or differs
  from the configured secret never changes the users table, whatever the other fields
  are. Once the connection of the first step is open, the handler does exactly this:
  it pushes the error flash message and answers with the redirect to the admin page;
  the only database effect of the request is the connect itself (no statement, no
  commit, no rollback).
\<close>

theorem admin_wrong_secret:
  assumes "http_method req = POST"
      and "form req ''admin_password'' \<noteq> Some (ADMIN_PASSWORD a)"
  shows "users (snd (admin a e req w)) = users w \<and>
         (db_up e \<longrightarrow>
            admin a e req w =
              (Redirect ''/admin'',
               w\<lparr>flashes := flashes w @ [(''error'', str_of ''Senha de admin incorreta!'')],
                 open_conns := Suc (open_conns w),
                 trace := trace w @
                   [Connect, Flash (str_of ''Senha de admin incorreta!'') ''error'']\<rparr>))"
  using assms
  by (cases "db_up e") (simp_all add: admin_down admin_post_wrong_secret flash_def log_event_def)

theorem admin_wrong_secret_witness:
  "http_method wrong_secret_request = POST \<and>
   form wrong_secret_request ''admin_password'' \<noteq> Some (ADMIN_PASSWORD example_app) \<and>
   db_up up \<and>
   admin example_app up wrong_secret_request ana_world =
     (Redirect ''/admin'',
      ana_world\<lparr>flashes := [(''error'', str_of ''Senha de admin incorreta!'')],
                open_conns := 1,
                trace := [Connect, Flash (str_of ''Senha de admin incorreta!'') ''error'']\<rparr>) \<and>
   users (snd (admin example_app up wrong_secret_request ana_world)) = [ana]"
proof -
  have m: "http_method wrong_secret_request = POST"
    and s: "form wrong_secret_request ''admin_password'' \<noteq> Some (ADMIN_PASSWORD example_app)"
    and u: "db_up up"
    by (simp_all add: request_defs example_defs)
  from admin_wrong_secret [OF m s, of up ana_world]
  show ?thesis using m s u by (simp add: ana_world_def empty_world_def)
qed




text \<open>
  Claim C1, as stated, fails: with the right secret, an unused email and the empty
  password the creation commits one row whose hash verifies for that password, yet
  the login with the same email and password is answered 400.
\<close>

theorem create_then_login_empty_password:
  "http_method \<lparr>http_method = POST, form = ana_form(''password'' \<mapsto> [])\<rparr> = POST \<and>
   str_of ''ana@x.com'' \<notin> set (map email (users empty_world)) \<and>
   users (snd (admin example_app up
                 \<lparr>http_method = POST, form = ana_form(''password'' \<mapsto> [])\<rparr> empty_world)) =
     [\<lparr>email = str_of ''ana@x.com'', password_hash = str_of ''s1$'',
       name = Some (str_of ''Ana''), photo = None, created_at = 1000\<rparr>] \<and>
   check_password_hash example_app (str_of ''s1$'') (JStr []) = Inr True \<and>
   fst (login example_app up (Some (credentials ''ana@x.com'' (JStr [])))
          (snd (admin example_app up
                  \<lparr>http_method = POST, form = ana_form(''password'' \<mapsto> [])\<rparr> empty_world))) =
     Json (failure msg_required) 400"
proof -
  let ?req = "\<lparr>http_method = POST, form = ana_form(''password'' \<mapsto> [])\<rparr>"
  let ?w1 = "log_event Connect (empty_world\<lparr>open_conns := Suc (open_conns empty_world)\<rparr>)"
  have f: "db_up up" "http_method ?req = POST"
    "form ?req ''admin_password'' = Some (ADMIN_PASSWORD example_app)"
    "form ?req ''name'' = Some (str_of ''Ana'')" "form ?req ''email'' = Some (str_of ''ana@x.com'')"
    "form ?req ''password'' = Some []"
    by (simp_all add: example_defs)
  have ph: "generate_password_hash example_app (salt up) [] = str_of ''s1$''"
    by (simp add: example_app_def up_def str_of_def)
  have ins: "execute_insert up \<lparr>txn_rows = users empty_world\<rparr> (str_of ''Ana'')
               (str_of ''ana@x.com'') (str_of ''s1$'') ?w1 =
             (Inr (\<lparr>txn_rows = users empty_world\<rparr>\<lparr>txn_rows :=
                     txn_rows \<lparr>txn_rows = users empty_world\<rparr> @
                     [\<lparr>email = str_of ''ana@x.com'', password_hash = str_of ''s1$'',
                       name = Some (str_of ''Ana''), photo = None, created_at = now up\<rparr>]\<rparr>),
              log_event (Insert_user (str_of ''Ana'') (str_of ''ana@x.com'') (str_of ''s1$'')) ?w1)"
    by (intro execute_insert_fresh) (simp_all add: up_def empty_world_def text_defs)
  have adm: "users (snd (admin example_app up ?req empty_world)) =
     [\<lparr>email = str_of ''ana@x.com'', password_hash = str_of ''s1$'',
       name = Some (str_of ''Ana''), photo = None, created_at = 1000\<rparr>]"
    unfolding admin_post_create [OF f] ph
    by (simp add: create_user_def ins)
       (simp add: show_page_eq flash_def commit_def log_event_def up_def empty_world_def)
  have c: "check_password_hash example_app (str_of ''s1$'') (JStr []) = Inr True"
    by (simp add: example_app_def text_defs)
  have l: "fst (login example_app up (Some (credentials ''ana@x.com'' (JStr []))) w) =
             Json (failure msg_required) 400" for w
    by (simp add: login_def dict_get_def credentials_def)
  show ?thesis
    by (simp add: adm c l) (simp add: empty_world_def)
qed

text \<open>
  Claim C1, amended. For a name of at most 100 characters, a non-empty email of at most
  120 characters that no stored user has, and a non-empty password whose hash has at
  most 256 characters and verifies under \<^verbatim>\<open>check_password_hash\<close>, none of name, email
  and hash holding a NUL or a surrogate: on a reachable database and with no other
  storage fault, the admin POST with the right secret commits exactly one new row
  (name, email, hash, no photo), and a later login with the same email and password,
  on a reachable database, is answered 200 with that user's profile.
\<close>

theorem create_then_login:
  assumes "db_up e1" "storage_fault e1 = None" "db_up e2"
      and "http_method req = POST"
      and "form req ''admin_password'' = Some (ADMIN_PASSWORD a)"
      and "form req ''name'' = Some nm" "form req ''email'' = Some em"
      and "form req ''password'' = Some pw"
      and "em \<noteq> []" "pw \<noteq> []"
      and "length nm \<le> 100" "length em \<le> 120"
      and "length (generate_password_hash a (salt e1) pw) \<le> 256"
      and "adapt_text nm = None" "adapt_text em = None"
      and "adapt_text (generate_password_hash a (salt e1) pw) = None"
      and "em \<notin> set (map email (users w))"
      and "check_password_hash a (generate_password_hash a (salt e1) pw) (JStr pw) = Inr True"
      and "dict_get kvs ''email'' = Some (JStr em)" "dict_get kvs ''password'' = Some (JStr pw)"
  shows "users (snd (admin a e1 req w)) = users w @
           [\<lparr>email = em, password_hash = generate_password_hash a (salt e1) pw,
             name = Some nm, photo = None, created_at = now e1\<rparr>] \<and>
         trace (snd (admin a e1 req w)) = trace w @
           [Connect, Insert_user nm em (generate_password_hash a (salt e1) pw), Commit,
            Flash (str_of ''Utilizador '' @ em @ str_of '' criado com sucesso!'') ''success'',
            Select_all, Close] \<and>
         fst (login a e2 (Some (JObj kvs)) (snd (admin a e1 req w))) =
           Json (JObj [(''success'', JBool True),
                       (''user'', JObj [(''name'', JStr nm), (''email'', JStr em),
                                        (''photo'', JStr [])])]) 200"
proof -
  let ?w1 = "log_event Connect (w\<lparr>open_conns := Suc (open_conns w)\<rparr>)"
  let ?ph = "generate_password_hash a (salt e1) pw"
  let ?row = "\<lparr>email = em, password_hash = ?ph, name = Some nm, photo = None,
               created_at = now e1\<rparr>"
  have ins: "execute_insert e1 \<lparr>txn_rows = users w\<rparr> nm em ?ph ?w1 =
               (Inr (\<lparr>txn_rows = users w\<rparr>\<lparr>txn_rows := txn_rows \<lparr>txn_rows = users w\<rparr> @ [?row]\<rparr>),
                log_event (Insert_user nm em ?ph) ?w1)"
    using assms by (intro execute_insert_fresh) simp_all
  have adm: "snd (admin a e1 req w) =
     w\<lparr>users := users w @ [?row],
       flashes := [],
       trace := trace w @ [Connect, Insert_user nm em ?ph, Commit,
            Flash (str_of ''Utilizador '' @ em @ str_of '' criado com sucesso!'') ''success'',
            Select_all, Close]\<rparr>"
    using assms(1,4-8)
    by (simp add: admin_post_create create_user_def ins)
       (simp_all add: show_page_eq flash_def commit_def log_event_def)
  have "find (\<lambda>u. email u = em) (users w) = None"
    using assms(17) by (auto simp: find_None_iff)
  then have f: "find (\<lambda>u. email u = em) (users (snd (admin a e1 req w))) = Some ?row"
    by (simp add: adm find_snoc)
  have t: "truthy (JStr em)" "truthy (JStr pw)"
    using assms(9,10) by simp_all
  have "fst (login a e2 (Some (JObj kvs)) (snd (admin a e1 req w))) =
           Json (JObj [(''success'', JBool True),
                       (''user'', JObj [(''name'', JStr nm), (''email'', JStr em),
                                        (''photo'', JStr [])])]) 200"
    unfolding login_validated [OF assms(19,20) t assms(3)]
    using f assms(15,18) by (simp add: email_param_def user_profile_def)
  then show ?thesis by (simp add: adm)
qed

theorem create_then_login_witness:
  "str_of ''ana@x.com'' \<notin> set (map email (users empty_world)) \<and>
   check_password_hash example_app
     (generate_password_hash example_app (salt up) (str_of ''secret1''))
     (JStr (str_of ''secret1'')) = Inr True \<and>
   users (snd (admin example_app up ana_request empty_world)) = [ana] \<and>
   trace (snd (admin example_app up ana_request empty_world)) =
     [Connect, Insert_user (str_of ''Ana'') (str_of ''ana@x.com'') (str_of ''s1$secret1''),
      Commit,
      Flash (str_of ''Utilizador '' @ str_of ''ana@x.com'' @ str_of '' criado com sucesso!'')
        ''success'',
      Select_all, Close] \<and>
   fst (login example_app up (Some (credentials ''ana@x.com'' (JStr (str_of ''secret1''))))
          (snd (admin example_app up ana_request empty_world))) =
     Json (JObj [(''success'', JBool True),
                 (''user'', JObj [(''name'', JStr (str_of ''Ana'')),
                                  (''email'', JStr (str_of ''ana@x.com'')),
                                  (''photo'', JStr [])])]) 200"
proof -
  have v: "generate_password_hash example_app (salt up) (str_of ''secret1'')
             = str_of ''s1$secret1''"
    "now up = 1000" "users empty_world = []" "trace empty_world = []"
    by (simp_all add: example_defs str_of_def)
  have h: "db_up up" "storage_fault up = None" "db_up up" "http_method ana_request = POST"
    "form ana_request ''admin_password'' = Some (ADMIN_PASSWORD example_app)"
    "form ana_request ''name'' = Some (str_of ''Ana'')"
    "form ana_request ''email'' = Some (str_of ''ana@x.com'')"
    "form ana_request ''password'' = Some (str_of ''secret1'')"
    "str_of ''ana@x.com'' \<noteq> []" "str_of ''secret1'' \<noteq> []"
    "length (str_of ''Ana'') \<le> 100" "length (str_of ''ana@x.com'') \<le> 120"
    "length (generate_password_hash example_app (salt up) (str_of ''secret1'')) \<le> 256"
    "adapt_text (str_of ''Ana'') = None" "adapt_text (str_of ''ana@x.com'') = None"
    "adapt_text (generate_password_hash example_app (salt up) (str_of ''secret1'')) = None"
    "str_of ''ana@x.com'' \<notin> set (map email (users empty_world))"
    "check_password_hash example_app
       (generate_password_hash example_app (salt up) (str_of ''secret1''))
       (JStr (str_of ''secret1'')) = Inr True"
    "dict_get [(''email'', JStr (str_of ''ana@x.com'')), (''password'', JStr (str_of ''secret1''))]
       ''email'' = Some (JStr (str_of ''ana@x.com''))"
    "dict_get [(''email'', JStr (str_of ''ana@x.com'')), (''password'', JStr (str_of ''secret1''))]
       ''password'' = Some (JStr (str_of ''secret1''))"
    unfolding v
    by (simp_all add: request_defs example_defs dict_get_def text_defs)
  from create_then_login [OF h]
  show ?thesis using h(17,18) by (simp add: v ana_def credentials_def)
qed

text \<open>
  Claim C8. The listing query returns the (name, email) pairs of all stored rows, each
  row once, ordered by \<open>created_at\<close> descending. It depends on no other column: two
  tables that agree on name, email and timestamp, whatever their hashes and photos,
  give the same listing. Every page the admin handler renders shows this listing of
  the table as the request leaves it.
\<close>

theorem listing_newest_first:
  "mset (order_by_created_at_desc rows) = mset rows \<and>
   sorted_wrt (\<lambda>u v. created_at v \<le> created_at u) (order_by_created_at_desc rows) \<and>
   list_users rows = map (\<lambda>u. (name u, email u)) (order_by_created_at_desc rows) \<and>
   (map (\<lambda>u. (name u, email u, created_at u)) rows =
      map (\<lambda>u. (name u, email u, created_at u)) rows' \<longrightarrow> list_users rows = list_users rows') \<and>
   (fst (admin a e req w) = Html p \<longrightarrow>
      page_users p = list_users (users (snd (admin a e req w))))"
proof (intro conjI impI)
  show "mset (order_by_created_at_desc rows) = mset rows"
    by (simp add: order_by_created_at_desc_def)
  show "sorted_wrt (\<lambda>u v. created_at v \<le> created_at u) (order_by_created_at_desc rows)"
    by (rule order_by_created_at_desc_sorted)
  show "list_users rows = map (\<lambda>u. (name u, email u)) (order_by_created_at_desc rows)"
    by (simp add: list_users_def)
next
  assume "map (\<lambda>u. (name u, email u, created_at u)) rows =
          map (\<lambda>u. (name u, email u, created_at u)) rows'"
  then show "list_users rows = list_users rows'"
    by (rule list_users_hides_other_columns)
next
  assume "fst (admin a e req w) = Html p"
  then show "page_users p = list_users (users (snd (admin a e req w)))"
    by (rule admin_page_users)
qed

theorem listing_newest_first_witness:
  "map (\<lambda>u. (name u, email u, created_at u)) [ana, bia] =
     map (\<lambda>u. (name u, email u, created_at u))
       [ana\<lparr>password_hash := str_of ''other''\<rparr>, bia\<lparr>photo := None\<rparr>] \<and>
   list_users [ana, bia] =
     list_users [ana\<lparr>password_hash := str_of ''other''\<rparr>, bia\<lparr>photo := None\<rparr>] \<and>
   list_users [ana, bia] = [(Some (str_of ''Bia''), str_of ''bia@x.com''),
      (Some (str_of ''Ana''), str_of ''ana@x.com'')] \<and>
   fst (admin example_app up get_request (empty_world\<lparr>users := [ana, bia]\<rparr>)) =
     Html \<lparr>page_messages = [],
           page_users = [(Some (str_of ''Bia''), str_of ''bia@x.com''),
      (Some (str_of ''Ana''), str_of ''ana@x.com'')]\<rparr>"
proof -
  let ?w = "empty_world\<lparr>users := [ana, bia]\<rparr>"
  let ?p = "\<lparr>page_messages = [],
             page_users = [(Some (str_of ''Bia''), str_of ''bia@x.com''),
      (Some (str_of ''Ana''), str_of ''ana@x.com'')]\<rparr>"
  let ?rows' = "[ana\<lparr>password_hash := str_of ''other''\<rparr>, bia\<lparr>photo := None\<rparr>]"
  have l: "list_users [ana, bia] = [(Some (str_of ''Bia''), str_of ''bia@x.com''),
      (Some (str_of ''Ana''), str_of ''ana@x.com'')]"
    by (simp add: list_users_def order_by_created_at_desc_def example_defs)
  have h: "fst (admin example_app up get_request ?w) = Html ?p"
    by (simp add: admin_get show_page_eq log_event_def l up_def empty_world_def request_defs)
  have c: "map (\<lambda>u. (name u, email u, created_at u)) [ana, bia] =
           map (\<lambda>u. (name u, email u, created_at u)) ?rows'"
    by (simp add: example_defs)
  have n: "list_users [ana, bia] = list_users ?rows'"
    using listing_newest_first [of "[ana, bia]" ?rows' example_app up get_request ?w ?p] c
    by blast
  show ?thesis using h c l n by simp
qed

text \<open>
  Claim C9 says that every path of a handler that returns a response has closed the
  connection it opened. The path of \<^verbatim>\<open>admin\<close> that answers a wrong admin secret
  (line 157) returns its redirect without \<^verbatim>\<open>conn.close()\<close>: started with no open
  connection, the request ends with one, and no \<open>Close\<close> event.
\<close>

theorem admin_redirect_leaves_connection_open:
  "admin example_app up wrong_secret_request empty_world =
     (Redirect ''/admin'',
      \<lparr>users = [], flashes = [(''error'', str_of ''Senha de admin incorreta!'')],
       open_conns = 1,
       trace = [Connect, Flash (str_of ''Senha de admin incorreta!'') ''error'']\<rparr>)"
  by (simp add: admin_def flash_def db_defs example_defs request_defs)

text \<open>
  Claim C10. A login request never changes the users table, nor does a GET of the
  admin page; an admin request that changes the table is a POST carrying the
  configured admin secret.
\<close>

theorem handlers_frame:
  "users (snd (login a e data w)) = users w \<and>
   (http_method req = GET \<longrightarrow> users (snd (admin a e req w)) = users w) \<and>
   (users (snd (admin a e req w)) \<noteq> users w \<longrightarrow>
      http_method req = POST \<and> form req ''admin_password'' = Some (ADMIN_PASSWORD a))"
proof (intro conjI impI)
  show "users (snd (login a e data w)) = users w"
    by (rule login_users)
next
  assume "http_method req = GET"
  then show "users (snd (admin a e req w)) = users w"
    by (cases "db_up e") (simp_all add: admin_down admin_get show_page_eq log_event_def)
next
  assume changed: "users (snd (admin a e req w)) \<noteq> users w"
  show "http_method req = POST"
  proof (cases rule: admin_paths [where e = e and req = req and a = a])
    case down
    with changed show ?thesis by (simp add: admin_down log_event_def)
  next
    case get
    with changed show ?thesis by (simp add: admin_get show_page_eq log_event_def)
  qed simp_all
  show "form req ''admin_password'' = Some (ADMIN_PASSWORD a)"
  proof (cases rule: admin_paths [where e = e and req = req and a = a])
    case down
    with changed show ?thesis by (simp add: admin_down log_event_def)
  next
    case get
    with changed show ?thesis by (simp add: admin_get show_page_eq log_event_def)
  next
    case wrong_secret
    with changed show ?thesis by (simp add: admin_post_wrong_secret flash_def log_event_def)
  qed simp_all
qed

theorem handlers_frame_witness:
  "users (snd (login example_app up
                 (Some (credentials ''ana@x.com'' (JStr (str_of ''secret1'')))) ana_world)) = [ana] \<and>
   http_method get_request = GET \<and>
   users (snd (admin example_app up get_request ana_world)) = [ana] \<and>
   users (snd (admin example_app up ana_request empty_world)) \<noteq> users empty_world \<and>
   http_method ana_request = POST \<and>
   form ana_request ''admin_password'' = Some (ADMIN_PASSWORD example_app)"
proof -
  have g: "http_method get_request = GET"
    by (simp add: request_defs)
  have c: "users (snd (admin example_app up ana_request empty_world)) \<noteq> users empty_world"
    by (simp add: admin_def create_user_def execute_insert_def fit_def show_page_eq flash_def
        db_defs example_defs request_defs Let_def text_defs)
  from handlers_frame [of example_app up
      "Some (credentials ''ana@x.com'' (JStr (str_of ''secret1'')))" ana_world get_request]
    handlers_frame [of example_app up None empty_world ana_request]
  show ?thesis using g c by (simp add: ana_world_def empty_world_def)
qed

end
